theory Spec2Isabelle
  imports Main "HOL-Library.Sublist"
begin

section \<open>The SlackAlert callback of src/callbacks/slack_alert.py\<close>

text \<open>
  The callback is a Python class with eight attributes and three event handlers,
  \<^verbatim>\<open>on_train_epoch_end\<close>, \<^verbatim>\<open>on_exception\<close> and \<^verbatim>\<open>teardown\<close>.
  Each handler is embedded as a function from the instance (a record) and the values it
  reads from its surroundings to the updated instance and the list of effects it performed,
  in the order it performed them. A handler that ends in \<^verbatim>\<open>raise\<close> also yields
  the exception it raised.
\<close>

subsection \<open>Data\<close>

text \<open>
  The attributes assigned in \<^verbatim>\<open>__init__\<close> (lines 30 to 37), under their own names.
  \<^verbatim>\<open>pl_module_device\<close> is set to \<^verbatim>\<open>None\<close> there and never written again.
\<close>

record SlackAlert =
  exception_only :: bool
  pl_module_device :: "string option"
  exception_occurred :: bool
  disabled :: bool
  ignore_keyboard_interrupt :: bool
  at_epoch :: "int option"
  at_global_step :: "int option"
  hostname :: string

text \<open>
  What the handlers read from the \<^verbatim>\<open>trainer\<close> argument:
  \<^verbatim>\<open>trainer.current_epoch\<close>, \<^verbatim>\<open>trainer.global_step\<close>,
  \<^verbatim>\<open>str(trainer.strategy.root_device)\<close>, and the \<^verbatim>\<open>id\<close> and
  \<^verbatim>\<open>url\<close> of \<^verbatim>\<open>trainer.logger.experiment\<close>. The trainer belongs to the
  training framework; its attribute reads are taken as given values.
\<close>

record trainer =
  current_epoch :: int
  global_step :: int
  root_device :: string
  wandb_run_id :: string
  wandb_run_url :: string

text \<open>
  What the handlers read from the interpreter: the wall clock of \<^verbatim>\<open>datetime.now()\<close>,
  already rendered as \<^verbatim>\<open>YYYY-MM-DD HH:MM:SS\<close> (the rendering of both
  \<^verbatim>\<open>strftime("%Y-%m-%d %H:%M:%S")\<close> and of \<^verbatim>\<open>str\<close> after
  \<^verbatim>\<open>replace(microsecond=0)\<close>), and the text of \<^verbatim>\<open>traceback.format_exc()\<close>.
\<close>

record ambient =
  now :: string
  format_exc :: string

text \<open>
  A Python exception object: its identity, the names of the classes of its type's method
  resolution order (most derived first, ending in \<^verbatim>\<open>BaseException\<close> and
  \<^verbatim>\<open>object\<close>), and its message.
\<close>

record py_exception =
  exc_id :: nat
  exc_mro :: "string list"
  exc_args :: string

definition isinstance :: "py_exception \<Rightarrow> string \<Rightarrow> bool" where
  "isinstance e cls = (cls \<in> set (exc_mro e))"

text \<open>How a call ends: it returns \<^verbatim>\<open>None\<close>, or it raises an exception object.\<close>

datatype outcome = Returned | Raised py_exception

text \<open>The two effects a handler has on the outside: a call of \<^verbatim>\<open>alert\<close> and a call of \<^verbatim>\<open>print\<close>.\<close>

datatype effect = Alert string | Print string

subsection \<open>Helpers\<close>

text \<open>
  Modelled from the spec: \<^verbatim>\<open>alert\<close> is imported from \<^verbatim>\<open>src/utils/helper.py\<close>,
  which is not among the sources. The specification gives it as
  \<^verbatim>\<open>alert(message: string) -> void\<close>, a fire-and-forget text delivery: it hands the
  message to the chat service and returns.
\<close>

definition alert :: "string \<Rightarrow> effect list" where
  "alert message = [Alert message]"

text \<open>The builtin \<^verbatim>\<open>print\<close> with one argument writes it to standard output, followed by a newline.\<close>

definition print :: "string \<Rightarrow> effect list" where
  "print text = [Print text]"

definition newline :: char where
  "newline = CHR 0x0A"

fun stdout_text :: "effect list \<Rightarrow> string" where
  "stdout_text [] = []"
| "stdout_text (Print text # es) = text @ [newline] @ stdout_text es"
| "stdout_text (Alert message # es) = stdout_text es"

definition alerts_sent :: "effect list \<Rightarrow> string list" where
  "alerts_sent es = concat (map (\<lambda>e. case e of Alert m \<Rightarrow> [m] | Print _ \<Rightarrow> []) es)"

definition line_count :: "string \<Rightarrow> nat" where
  "line_count text = count_list text newline"

text \<open>\<^verbatim>\<open>str\<close> of a Python integer, as the f-strings of lines 45 and 48 format it.\<close>

definition digit_char :: "nat \<Rightarrow> char" where
  "digit_char d = char_of (48 + d)"

fun str_nat :: "nat \<Rightarrow> string" where
  "str_nat n = (if n < 10 then [digit_char n] else str_nat (n div 10) @ [digit_char (n mod 10)])"

declare str_nat.simps [simp del]

definition str_int :: "int \<Rightarrow> string" where
  "str_int i = (if i < 0 then CHR ''-'' # str_nat (nat (- i)) else str_nat (nat i))"

text \<open>
  \<^verbatim>\<open>str.capitalize\<close>: the first character in upper case, the others in lower case.
  The stage names the framework passes are ASCII; a character that is not an ASCII letter is
  left as it is.
\<close>

definition upper_char :: "char \<Rightarrow> char" where
  "upper_char c = (let n = (of_char c :: nat) in if 97 \<le> n \<and> n \<le> 122 then char_of (n - 32) else c)"

definition lower_char :: "char \<Rightarrow> char" where
  "lower_char c = (let n = (of_char c :: nat) in if 65 \<le> n \<and> n \<le> 90 then char_of (n + 32) else c)"

fun capitalize :: "string \<Rightarrow> string" where
  "capitalize [] = []"
| "capitalize (c # cs) = upper_char c # map lower_char cs"

text \<open>
  The decorator \<^verbatim>\<open>rank_zero_only\<close> of the framework: the wrapped function runs on the
  process of rank 0 and is replaced by a function that does nothing and returns
  \<^verbatim>\<open>None\<close> on every other process.
\<close>

definition rank_zero_only :: "int \<Rightarrow> (SlackAlert \<Rightarrow> SlackAlert \<times> effect list) \<Rightarrow> SlackAlert \<Rightarrow> SlackAlert \<times> effect list" where
  "rank_zero_only rank fn self = (if rank = 0 then fn self else (self, []))"

subsection \<open>The constructor\<close>

text \<open>Lines 18 to 37; the last argument is the value of \<^verbatim>\<open>socket.gethostname()\<close>.\<close>

definition init :: "bool \<Rightarrow> bool \<Rightarrow> bool \<Rightarrow> int option \<Rightarrow> int option \<Rightarrow> string \<Rightarrow> SlackAlert" where
  "init exception_only' disabled' ignore_keyboard_interrupt' at_epoch' at_global_step' gethostname =
     \<lparr>exception_only = exception_only',
      pl_module_device = None,
      exception_occurred = False,
      disabled = disabled',
      ignore_keyboard_interrupt = ignore_keyboard_interrupt',
      at_epoch = at_epoch',
      at_global_step = at_global_step',
      hostname = gethostname\<rparr>"

subsection \<open>on_train_epoch_end\<close>

text \<open>The titles of lines 45 and 48, and the message of lines 54 to 59.\<close>

definition epoch_title :: "int \<Rightarrow> string" where
  "epoch_title n = ''Training progress: epoch '' @ str_int n @ '' completed''"

definition global_step_title :: "int \<Rightarrow> string" where
  "global_step_title n = ''Training progress: global step '' @ str_int n @ '' completed''"

definition progress_message :: "string \<Rightarrow> SlackAlert \<Rightarrow> trainer \<Rightarrow> ambient \<Rightarrow> string" where
  "progress_message title0 self tr amb =
     (let wandb_url = wandb_run_url tr;
          title = title0 @ '' for run `'' @ wandb_run_id tr @ ''`'';
          formatted_time = now amb;
          device = root_device tr
      in ''*'' @ title @ ''*'' @ [newline] @ ''Time completed: '' @ formatted_time @ [newline]
         @ ''Hostname: '' @ hostname self @ [newline] @ ''Device: '' @ device @ [newline]
         @ ''Wandb URL: '' @ wandb_url @ [newline])"

text \<open>
  Lines 44 to 61. The first two branches choose the title and clear the threshold they
  tested; the third returns at once.
\<close>

definition on_train_epoch_end :: "SlackAlert \<Rightarrow> trainer \<Rightarrow> ambient \<Rightarrow> SlackAlert \<times> effect list" where
  "on_train_epoch_end self tr amb =
     (if at_epoch self \<noteq> None \<and> current_epoch tr \<ge> the (at_epoch self) then
        (let title = epoch_title (the (at_epoch self));
             self' = self\<lparr>at_epoch := None\<rparr>
         in (self', alert (progress_message title self' tr amb)))
      else if at_global_step self \<noteq> None \<and> global_step tr \<ge> the (at_global_step self) then
        (let title = global_step_title (the (at_global_step self));
             self' = self\<lparr>at_global_step := None\<rparr>
         in (self', alert (progress_message title self' tr amb)))
      else (self, []))"

subsection \<open>on_exception\<close>

definition exception_message :: "SlackAlert \<Rightarrow> trainer \<Rightarrow> ambient \<Rightarrow> string" where
  "exception_message self tr amb =
     (let stack_trace = format_exc amb;
          device = root_device tr;
          title = ''Exception Occurred''
      in ''*'' @ title @ ''*```'' @ stack_trace @ ''```'' @ [newline] @ ''Host: '' @ hostname self
         @ [newline] @ ''Device: '' @ device @ [newline] @ ''Time: '' @ now amb)"

definition keyboard_interrupt_notice :: string where
  "keyboard_interrupt_notice =
     ''SlackAlert: Encountered keyboard interrupt. Slack alert not sent.'' @ [newline]
     @ ''To enable slack alerts on keyboard interrupts, set `ignore_keyboard_interrupt` to False.''"

text \<open>Lines 67 to 82. Every branch ends in \<^verbatim>\<open>raise exception\<close>.\<close>

definition on_exception :: "SlackAlert \<Rightarrow> trainer \<Rightarrow> ambient \<Rightarrow> py_exception \<Rightarrow> outcome \<times> SlackAlert \<times> effect list" where
  "on_exception self tr amb exception =
     (if disabled self then (Raised exception, self, [])
      else
        (let message = exception_message self tr amb in
         if isinstance exception ''KeyboardInterrupt'' \<and> ignore_keyboard_interrupt self then
           (Raised exception, self, print keyboard_interrupt_notice)
         else
           (Raised exception, self\<lparr>exception_occurred := True\<rparr>, alert message)))"

subsection \<open>teardown\<close>

definition completed_message :: "string \<Rightarrow> SlackAlert \<Rightarrow> trainer \<Rightarrow> ambient \<Rightarrow> string" where
  "completed_message stage self tr amb =
     (let title = capitalize stage @ '' completed'';
          formatted_time = now amb;
          device = root_device tr
      in ''*'' @ title @ ''*'' @ [newline] @ ''```Time completed: '' @ formatted_time @ [newline]
         @ ''Hostname: '' @ hostname self @ [newline] @ ''Device: '' @ device @ ''```'')"

text \<open>Lines 84 to 96; the first argument is the rank of the process the decorator reads.\<close>

definition teardown :: "int \<Rightarrow> SlackAlert \<Rightarrow> trainer \<Rightarrow> ambient \<Rightarrow> string \<Rightarrow> SlackAlert \<times> effect list" where
  "teardown rank self tr amb stage =
     rank_zero_only rank
       (\<lambda>self. if \<not> exception_only self \<and> \<not> exception_occurred self \<and> \<not> disabled self
               then (self, alert (completed_message stage self tr amb))
               else (self, []))
       self"

subsection \<open>Sequences of callbacks\<close>

text \<open>
  The training framework calls the three handlers on one instance, in an order the callback
  does not control. A history of such calls is a list of events; \<open>run\<close> threads the
  instance through them and collects the effects. An exception that
  \<^verbatim>\<open>on_exception\<close> raises goes to the framework; the instance it leaves behind is
  the one later calls see.
\<close>

datatype event =
  Train_epoch_end trainer ambient
| Exception trainer ambient py_exception
| Teardown int trainer ambient string

fun dispatch :: "SlackAlert \<Rightarrow> event \<Rightarrow> SlackAlert \<times> effect list" where
  "dispatch self (Train_epoch_end tr amb) = on_train_epoch_end self tr amb"
| "dispatch self (Exception tr amb exception) = snd (on_exception self tr amb exception)"
| "dispatch self (Teardown rank tr amb stage) = teardown rank self tr amb stage"

fun run :: "SlackAlert \<Rightarrow> event list \<Rightarrow> SlackAlert \<times> effect list" where
  "run self [] = (self, [])"
| "run self (ev # evs) =
     (case dispatch self ev of (self', es) \<Rightarrow>
        (case run self' evs of (self'', es') \<Rightarrow> (self'', es @ es')))"

text \<open>
  Which threshold an alert of \<^verbatim>\<open>on_train_epoch_end\<close> reports is read off the text of
  the alert: the message opens with the title of line 45 or with the title of line 48.
\<close>

fun is_epoch_alert :: "effect \<Rightarrow> bool" where
  "is_epoch_alert (Alert message) = prefix ''*Training progress: epoch '' message"
| "is_epoch_alert (Print text) = False"

fun is_global_step_alert :: "effect \<Rightarrow> bool" where
  "is_global_step_alert (Alert message) = prefix ''*Training progress: global step '' message"
| "is_global_step_alert (Print text) = False"

subsection \<open>Concrete inputs\<close>

definition ex_trainer :: trainer where
  "ex_trainer = \<lparr>current_epoch = 5, global_step = 200, root_device = ''cuda:0'',
                 wandb_run_id = ''k3v9'', wandb_run_url = ''https://wandb.ai/run/k3v9''\<rparr>"

definition ex_ambient :: ambient where
  "ex_ambient = \<lparr>now = ''2024-05-17 09:30:00'', format_exc = ''Traceback (most recent call last):''\<rparr>"

definition ex_keyboard_interrupt :: py_exception where
  "ex_keyboard_interrupt =
     \<lparr>exc_id = 1, exc_mro = [''KeyboardInterrupt'', ''BaseException'', ''object''], exc_args = []\<rparr>"

definition ex_runtime_error :: py_exception where
  "ex_runtime_error =
     \<lparr>exc_id = 2, exc_mro = [''RuntimeError'', ''Exception'', ''BaseException'', ''object''],
      exc_args = ''CUDA out of memory''\<rparr>"

definition ex_later_trainer :: trainer where
  "ex_later_trainer = \<lparr>current_epoch = 6, global_step = 240, root_device = ''cuda:0'',
                       wandb_run_id = ''k3v9'', wandb_run_url = ''https://wandb.ai/run/k3v9''\<rparr>"

text \<open>Instances with both thresholds within reach, with only the step threshold, and with both out of reach.\<close>

definition ex_armed :: SlackAlert where
  "ex_armed = init False False False (Some 3) (Some 100) ''node07''"

definition ex_step_armed :: SlackAlert where
  "ex_step_armed = init False False False None (Some 100) ''node07''"

definition ex_far :: SlackAlert where
  "ex_far = init False False False (Some 10) (Some 1000) ''node07''"

definition ex_events :: "event list" where
  "ex_events = [Train_epoch_end ex_later_trainer ex_ambient,
                Exception ex_later_trainer ex_ambient ex_runtime_error,
                Teardown 0 ex_later_trainer ex_ambient ''fit'']"

section \<open>Properties\<close>

subsection \<open>on_exception\<close>

lemma on_exception_disabled:
  "disabled self \<Longrightarrow> on_exception self tr amb exception = (Raised exception, self, [])"
  by (simp add: on_exception_def)

lemma on_exception_suppressed:
  "\<not> disabled self \<Longrightarrow> isinstance exception ''KeyboardInterrupt'' \<Longrightarrow> ignore_keyboard_interrupt self \<Longrightarrow>
   on_exception self tr amb exception = (Raised exception, self, [Print keyboard_interrupt_notice])"
  by (simp add: on_exception_def print_def)

lemma on_exception_alerting:
  "\<not> disabled self \<Longrightarrow> \<not> (isinstance exception ''KeyboardInterrupt'' \<and> ignore_keyboard_interrupt self) \<Longrightarrow>
   on_exception self tr amb exception =
     (Raised exception, self\<lparr>exception_occurred := True\<rparr>, [Alert (exception_message self tr amb)])"
  by (auto simp add: on_exception_def alert_def Let_def)

lemma line_count_keyboard_interrupt_notice:
  "line_count (keyboard_interrupt_notice @ [newline]) = 2"
  by (simp add: keyboard_interrupt_notice_def line_count_def newline_def)

text \<open>
  C2. Whatever the exception and whatever the flags, \<^verbatim>\<open>on_exception\<close> ends by raising
  the exception object it was given: it never returns normally and never raises another
  exception.
\<close>

theorem on_exception_reraises:
  "fst (on_exception self tr amb exception) = Raised exception"
  by (simp add: on_exception_def Let_def)

text \<open>
  C5. With \<^verbatim>\<open>disabled\<close> set, \<^verbatim>\<open>on_exception\<close> sends no alert, prints nothing,
  leaves every attribute of the instance as it was, and raises the exception it was given.
\<close>

theorem on_exception_disabled_is_silent:
  assumes "disabled self"
  shows "on_exception self tr amb exception = (Raised exception, self, [])"
  using assms by (rule on_exception_disabled)

theorem on_exception_disabled_is_silent_witness:
  "on_exception (init False True False (Some 3) None ''node07'') ex_trainer ex_ambient ex_runtime_error
     = (Raised ex_runtime_error, init False True False (Some 3) None ''node07'', [])"
proof -
  have d: "disabled (init False True False (Some 3) None ''node07'')"
    by (simp add: init_def)
  show ?thesis
    using on_exception_disabled_is_silent [OF d, of ex_trainer ex_ambient ex_runtime_error] by simp
qed

text \<open>
  C1, as stated: after every call of \<^verbatim>\<open>on_exception\<close> with \<^verbatim>\<open>disabled\<close> clear,
  \<^verbatim>\<open>exception_occurred\<close> is set. It fails for a keyboard interrupt on an instance
  built with \<^verbatim>\<open>ignore_keyboard_interrupt=True\<close>: the branch of lines 76 to 79 raises
  before line 81 is reached.
\<close>

theorem on_exception_suppressed_leaves_flag_clear:
  "\<not> disabled (init False False True None None ''node07'')
   \<and> isinstance ex_keyboard_interrupt ''KeyboardInterrupt''
   \<and> \<not> exception_occurred
        (fst (snd (on_exception (init False False True None None ''node07'')
                     ex_trainer ex_ambient ex_keyboard_interrupt)))"
  by (simp add: on_exception_def init_def ex_keyboard_interrupt_def isinstance_def print_def)

text \<open>
  C1, amended: after a call of \<^verbatim>\<open>on_exception\<close> with \<^verbatim>\<open>disabled\<close> clear,
  \<^verbatim>\<open>exception_occurred\<close> is set unless the exception is a
  \<^verbatim>\<open>KeyboardInterrupt\<close> and \<^verbatim>\<open>ignore_keyboard_interrupt\<close> is set; on that
  path the flag keeps the value it had. In no case does it go back from set to clear.
\<close>

theorem on_exception_sets_exception_occurred:
  assumes "\<not> disabled self"
  shows "exception_occurred (fst (snd (on_exception self tr amb exception)))
           = (exception_occurred self
              \<or> \<not> (isinstance exception ''KeyboardInterrupt'' \<and> ignore_keyboard_interrupt self))"
proof (cases "isinstance exception ''KeyboardInterrupt'' \<and> ignore_keyboard_interrupt self")
  case True
  with assms show ?thesis
    by (simp add: on_exception_suppressed)
next
  case False
  with assms show ?thesis
    by (simp add: on_exception_alerting)
qed

theorem on_exception_sets_exception_occurred_witness:
  "exception_occurred
     (fst (snd (on_exception (init False False True None None ''node07'')
                  ex_trainer ex_ambient ex_runtime_error)))
   \<and> \<not> exception_occurred
        (fst (snd (on_exception (init False False True None None ''node07'')
                     ex_trainer ex_ambient ex_keyboard_interrupt)))"
proof -
  have d: "\<not> disabled (init False False True None None ''node07'')"
    by (simp add: init_def)
  have r: "\<not> isinstance ex_runtime_error ''KeyboardInterrupt''"
    by (simp add: isinstance_def ex_runtime_error_def)
  have k: "isinstance ex_keyboard_interrupt ''KeyboardInterrupt''"
    by (simp add: isinstance_def ex_keyboard_interrupt_def)
  have f: "\<not> exception_occurred (init False False True None None ''node07'')"
          "ignore_keyboard_interrupt (init False False True None None ''node07'')"
    by (simp_all add: init_def)
  show ?thesis
    using on_exception_sets_exception_occurred [OF d, of ex_trainer ex_ambient ex_runtime_error]
          on_exception_sets_exception_occurred [OF d, of ex_trainer ex_ambient ex_keyboard_interrupt]
          r k f
    by simp
qed

text \<open>
  C6, as stated: on the suppressed path exactly one line is printed. It fails: the one call
  of \<^verbatim>\<open>print\<close> on lines 77 and 78 is given a text with a line break in it, so
  standard output receives two lines.
\<close>

theorem on_exception_suppressed_prints_two_lines:
  "\<not> disabled (init False False True None None ''node07'')
   \<and> ignore_keyboard_interrupt (init False False True None None ''node07'')
   \<and> isinstance ex_keyboard_interrupt ''KeyboardInterrupt''
   \<and> line_count
        (stdout_text
           (snd (snd (on_exception (init False False True None None ''node07'')
                        ex_trainer ex_ambient ex_keyboard_interrupt)))) = 2"
  by (simp add: on_exception_def init_def ex_keyboard_interrupt_def isinstance_def print_def
        keyboard_interrupt_notice_def line_count_def newline_def)

text \<open>
  C6, amended: with \<^verbatim>\<open>disabled\<close> clear, \<^verbatim>\<open>ignore_keyboard_interrupt\<close> set and
  a \<^verbatim>\<open>KeyboardInterrupt\<close>, \<^verbatim>\<open>on_exception\<close> sends no alert, calls
  \<^verbatim>\<open>print\<close> exactly once, with a text of two lines (the first says that no alert was
  sent, the second names the flag that changes this), and raises the exception it was given.
\<close>

theorem on_exception_suppressed_keyboard_interrupt:
  assumes "\<not> disabled self"
      and "ignore_keyboard_interrupt self"
      and "isinstance exception ''KeyboardInterrupt''"
  shows "fst (on_exception self tr amb exception) = Raised exception
         \<and> snd (snd (on_exception self tr amb exception)) = [Print keyboard_interrupt_notice]
         \<and> alerts_sent (snd (snd (on_exception self tr amb exception))) = []
         \<and> line_count (stdout_text (snd (snd (on_exception self tr amb exception)))) = 2
         \<and> keyboard_interrupt_notice =
             ''SlackAlert: Encountered keyboard interrupt. Slack alert not sent.'' @ [newline]
             @ ''To enable slack alerts on keyboard interrupts, set `ignore_keyboard_interrupt` to False.''"
proof -
  have "on_exception self tr amb exception = (Raised exception, self, [Print keyboard_interrupt_notice])"
    using assms by (simp add: on_exception_suppressed)
  then have effects:
    "fst (on_exception self tr amb exception) = Raised exception
     \<and> snd (snd (on_exception self tr amb exception)) = [Print keyboard_interrupt_notice]
     \<and> alerts_sent (snd (snd (on_exception self tr amb exception))) = []
     \<and> line_count (stdout_text (snd (snd (on_exception self tr amb exception)))) = 2"
    by (simp add: alerts_sent_def line_count_keyboard_interrupt_notice)
  have wording:
    "keyboard_interrupt_notice =
       ''SlackAlert: Encountered keyboard interrupt. Slack alert not sent.'' @ [newline]
       @ ''To enable slack alerts on keyboard interrupts, set `ignore_keyboard_interrupt` to False.''"
    by (simp add: keyboard_interrupt_notice_def)
  from effects wording show ?thesis
    by blast
qed

theorem on_exception_suppressed_keyboard_interrupt_witness:
  "fst (on_exception (init False False True None None ''node07'')
          ex_trainer ex_ambient ex_keyboard_interrupt) = Raised ex_keyboard_interrupt
   \<and> snd (snd (on_exception (init False False True None None ''node07'')
                 ex_trainer ex_ambient ex_keyboard_interrupt)) = [Print keyboard_interrupt_notice]"
proof -
  have d: "\<not> disabled (init False False True None None ''node07'')"
    and i: "ignore_keyboard_interrupt (init False False True None None ''node07'')"
    by (simp_all add: init_def)
  have k: "isinstance ex_keyboard_interrupt ''KeyboardInterrupt''"
    by (simp add: isinstance_def ex_keyboard_interrupt_def)
  show ?thesis
    using on_exception_suppressed_keyboard_interrupt [OF d i k, of ex_trainer ex_ambient] by simp
qed

subsection \<open>teardown\<close>

lemma teardown_rank_zero_sends:
  "\<not> exception_only self \<Longrightarrow> \<not> exception_occurred self \<Longrightarrow> \<not> disabled self \<Longrightarrow>
   teardown 0 self tr amb stage = (self, [Alert (completed_message stage self tr amb)])"
  by (simp add: teardown_def rank_zero_only_def alert_def)

lemma teardown_rank_zero_silent:
  "exception_only self \<or> exception_occurred self \<or> disabled self \<Longrightarrow>
   teardown 0 self tr amb stage = (self, [])"
  by (auto simp add: teardown_def rank_zero_only_def)

lemma teardown_keeps_instance:
  "fst (teardown rank self tr amb stage) = self"
  by (simp add: teardown_def rank_zero_only_def)

lemma completed_message_title:
  "prefix (''*'' @ capitalize stage @ '' completed*'') (completed_message stage self tr amb)"
  by (simp add: completed_message_def Let_def)

lemma capitalize_fit: "capitalize ''fit'' = ''Fit''"
  by code_simp

text \<open>
  C7. On the process of rank zero, \<^verbatim>\<open>teardown\<close> sends exactly one alert, whose title
  is the capitalized stage followed by "completed", when \<^verbatim>\<open>exception_only\<close>,
  \<^verbatim>\<open>exception_occurred\<close> and \<^verbatim>\<open>disabled\<close> are all clear, and only then; with
  any of them set it sends nothing. In both cases the instance is left as it was.
\<close>

theorem teardown_rank_zero:
  "(\<not> exception_only self \<and> \<not> exception_occurred self \<and> \<not> disabled self \<longrightarrow>
      teardown 0 self tr amb stage = (self, [Alert (completed_message stage self tr amb)])
      \<and> prefix (''*'' @ capitalize stage @ '' completed*'') (completed_message stage self tr amb))
   \<and> (\<not> (\<not> exception_only self \<and> \<not> exception_occurred self \<and> \<not> disabled self) \<longrightarrow>
        teardown 0 self tr amb stage = (self, []))
   \<and> (length (alerts_sent (snd (teardown 0 self tr amb stage))) = 1)
       = (\<not> exception_only self \<and> \<not> exception_occurred self \<and> \<not> disabled self)"
proof (cases "\<not> exception_only self \<and> \<not> exception_occurred self \<and> \<not> disabled self")
  case True
  then have "teardown 0 self tr amb stage = (self, [Alert (completed_message stage self tr amb)])"
    by (simp add: teardown_rank_zero_sends)
  with True completed_message_title [of stage self tr amb] show ?thesis
    by (simp add: alerts_sent_def)
next
  case False
  then have "teardown 0 self tr amb stage = (self, [])"
    by (simp add: teardown_rank_zero_silent)
  with False show ?thesis
    by (simp add: alerts_sent_def)
qed

theorem teardown_rank_zero_witness:
  "teardown 0 (init False False False None None ''node07'') ex_trainer ex_ambient ''fit''
     = (init False False False None None ''node07'',
        [Alert (completed_message ''fit'' (init False False False None None ''node07'') ex_trainer ex_ambient)])
   \<and> prefix ''*Fit completed*''
        (completed_message ''fit'' (init False False False None None ''node07'') ex_trainer ex_ambient)
   \<and> teardown 0 (init True False False None None ''node07'') ex_trainer ex_ambient ''fit''
     = (init True False False None None ''node07'', [])"
proof -
  have a: "\<not> exception_only (init False False False None None ''node07'')
           \<and> \<not> exception_occurred (init False False False None None ''node07'')
           \<and> \<not> disabled (init False False False None None ''node07'')"
    by (simp add: init_def)
  have b: "\<not> (\<not> exception_only (init True False False None None ''node07'')
           \<and> \<not> exception_occurred (init True False False None None ''node07'')
           \<and> \<not> disabled (init True False False None None ''node07''))"
    by (simp add: init_def)
  show ?thesis
    using teardown_rank_zero [of "init False False False None None ''node07''" ex_trainer ex_ambient "''fit''"]
          teardown_rank_zero [of "init True False False None None ''node07''" ex_trainer ex_ambient "''fit''"]
          a b
    by (simp add: capitalize_fit del: capitalize.simps)
qed

text \<open>
  C9. On a process whose rank is not zero, \<^verbatim>\<open>teardown\<close> sends no alert and changes
  nothing, whatever \<^verbatim>\<open>exception_only\<close>, \<^verbatim>\<open>exception_occurred\<close> and
  \<^verbatim>\<open>disabled\<close> are.
\<close>

theorem teardown_other_rank_is_noop:
  assumes "rank \<noteq> 0"
  shows "teardown rank self tr amb stage = (self, [])"
  using assms by (simp add: teardown_def rank_zero_only_def)

theorem teardown_other_rank_is_noop_witness:
  "teardown 3 (init False False False None None ''node07'') ex_trainer ex_ambient ''fit''
     = (init False False False None None ''node07'', [])"
proof -
  have r: "(3::int) \<noteq> 0"
    by simp
  show ?thesis
    using teardown_other_rank_is_noop [OF r] by simp
qed

text \<open>
  C10. On the suppressed path of \<^verbatim>\<open>on_exception\<close> (\<^verbatim>\<open>disabled\<close> clear,
  \<^verbatim>\<open>ignore_keyboard_interrupt\<close> set, a \<^verbatim>\<open>KeyboardInterrupt\<close>) no attribute
  of the instance changes, so \<^verbatim>\<open>exception_occurred\<close> stays clear if it was clear, and
  a later \<^verbatim>\<open>teardown\<close> on the process of rank zero with \<^verbatim>\<open>exception_only\<close>
  clear still sends the "completed" alert.
\<close>

theorem suppressed_interrupt_then_teardown_alerts:
  assumes "\<not> disabled self"
      and "ignore_keyboard_interrupt self"
      and "isinstance exception ''KeyboardInterrupt''"
  shows "fst (snd (on_exception self tr amb exception)) = self
         \<and> (\<not> exception_only self \<and> \<not> exception_occurred self \<longrightarrow>
              \<not> exception_occurred (fst (snd (on_exception self tr amb exception)))
              \<and> teardown 0 (fst (snd (on_exception self tr amb exception))) tr' amb' stage
                  = (self, [Alert (completed_message stage self tr' amb')])
              \<and> prefix (''*'' @ capitalize stage @ '' completed*'') (completed_message stage self tr' amb'))"
proof -
  have same: "fst (snd (on_exception self tr amb exception)) = self"
    using assms by (simp add: on_exception_suppressed)
  show ?thesis
    using assms(1) completed_message_title [of stage self tr' amb']
    by (simp add: same teardown_rank_zero_sends)
qed

theorem suppressed_interrupt_then_teardown_alerts_witness:
  "fst (snd (on_exception (init False False True None None ''node07'')
               ex_trainer ex_ambient ex_keyboard_interrupt))
     = init False False True None None ''node07''
   \<and> teardown 0
        (fst (snd (on_exception (init False False True None None ''node07'')
                     ex_trainer ex_ambient ex_keyboard_interrupt)))
        ex_trainer ex_ambient ''fit''
     = (init False False True None None ''node07'',
        [Alert (completed_message ''fit'' (init False False True None None ''node07'') ex_trainer ex_ambient)])
   \<and> prefix ''*Fit completed*''
        (completed_message ''fit'' (init False False True None None ''node07'') ex_trainer ex_ambient)"
proof -
  have d: "\<not> disabled (init False False True None None ''node07'')"
    and i: "ignore_keyboard_interrupt (init False False True None None ''node07'')"
    and f: "\<not> exception_only (init False False True None None ''node07'')
            \<and> \<not> exception_occurred (init False False True None None ''node07'')"
    by (simp_all add: init_def)
  have k: "isinstance ex_keyboard_interrupt ''KeyboardInterrupt''"
    by (simp add: isinstance_def ex_keyboard_interrupt_def)
  show ?thesis
    using suppressed_interrupt_then_teardown_alerts
            [OF d i k, of ex_trainer ex_ambient ex_trainer ex_ambient "''fit''"] f
    by (auto simp add: capitalize_fit simp del: capitalize.simps)
qed

subsection \<open>on_train_epoch_end\<close>

lemma on_train_epoch_end_epoch:
  "at_epoch self = Some n \<Longrightarrow> n \<le> current_epoch tr \<Longrightarrow>
   on_train_epoch_end self tr amb =
     (self\<lparr>at_epoch := None\<rparr>,
      [Alert (progress_message (epoch_title n) (self\<lparr>at_epoch := None\<rparr>) tr amb)])"
  by (simp add: on_train_epoch_end_def alert_def Let_def)

lemma on_train_epoch_end_global_step:
  "at_epoch self = None \<or> current_epoch tr < the (at_epoch self) \<Longrightarrow>
   at_global_step self = Some m \<Longrightarrow> m \<le> global_step tr \<Longrightarrow>
   on_train_epoch_end self tr amb =
     (self\<lparr>at_global_step := None\<rparr>,
      [Alert (progress_message (global_step_title m) (self\<lparr>at_global_step := None\<rparr>) tr amb)])"
  by (auto simp add: on_train_epoch_end_def alert_def Let_def)

lemma on_train_epoch_end_neither:
  "at_epoch self = None \<or> current_epoch tr < the (at_epoch self) \<Longrightarrow>
   at_global_step self = None \<or> global_step tr < the (at_global_step self) \<Longrightarrow>
   on_train_epoch_end self tr amb = (self, [])"
  by (auto simp add: on_train_epoch_end_def)

lemma epoch_message_is_epoch_alert:
  "prefix ''*Training progress: epoch '' (progress_message (epoch_title n) self tr amb)"
  by (simp add: progress_message_def epoch_title_def Let_def)

lemma epoch_message_is_not_global_step_alert:
  "\<not> prefix ''*Training progress: global step '' (progress_message (epoch_title n) self tr amb)"
  by (simp add: progress_message_def epoch_title_def Let_def)

lemma global_step_message_is_global_step_alert:
  "prefix ''*Training progress: global step '' (progress_message (global_step_title n) self tr amb)"
  by (simp add: progress_message_def global_step_title_def Let_def)

lemma global_step_message_is_not_epoch_alert:
  "\<not> prefix ''*Training progress: epoch '' (progress_message (global_step_title n) self tr amb)"
  by (simp add: progress_message_def global_step_title_def Let_def)

text \<open>
  The three outcomes of one call, by the branch taken, with the kind of alert each branch
  sends.
\<close>

lemma on_train_epoch_end_cases:
  obtains
    (epoch) n where "at_epoch self = Some n" and "n \<le> current_epoch tr"
      and "on_train_epoch_end self tr amb =
             (self\<lparr>at_epoch := None\<rparr>,
              [Alert (progress_message (epoch_title n) (self\<lparr>at_epoch := None\<rparr>) tr amb)])"
  | (global_step) m where "at_epoch self = None \<or> current_epoch tr < the (at_epoch self)"
      and "at_global_step self = Some m" and "m \<le> global_step tr"
      and "on_train_epoch_end self tr amb =
             (self\<lparr>at_global_step := None\<rparr>,
              [Alert (progress_message (global_step_title m) (self\<lparr>at_global_step := None\<rparr>) tr amb)])"
  | (neither) "at_epoch self = None \<or> current_epoch tr < the (at_epoch self)"
      and "at_global_step self = None \<or> global_step tr < the (at_global_step self)"
      and "on_train_epoch_end self tr amb = (self, [])"
proof (cases "at_epoch self \<noteq> None \<and> the (at_epoch self) \<le> current_epoch tr")
  case True
  then obtain n where "at_epoch self = Some n" and "n \<le> current_epoch tr"
    by auto
  then show thesis
    using epoch on_train_epoch_end_epoch by blast
next
  case no_epoch: False
  then have e: "at_epoch self = None \<or> current_epoch tr < the (at_epoch self)"
    by auto
  show thesis
  proof (cases "at_global_step self \<noteq> None \<and> the (at_global_step self) \<le> global_step tr")
    case True
    then obtain m where "at_global_step self = Some m" and "m \<le> global_step tr"
      by auto
    with e show thesis
      using global_step on_train_epoch_end_global_step by blast
  next
    case False
    then have "at_global_step self = None \<or> global_step tr < the (at_global_step self)"
      by auto
    with e show thesis
      using neither on_train_epoch_end_neither by blast
  qed
qed

lemma epoch_alert_iff:
  "list_ex is_epoch_alert (snd (on_train_epoch_end self tr amb))
     = (at_epoch self \<noteq> None \<and> the (at_epoch self) \<le> current_epoch tr)"
proof (cases self tr amb rule: on_train_epoch_end_cases)
  case (epoch n)
  then show ?thesis
    by (simp add: epoch_message_is_epoch_alert)
next
  case (global_step m)
  then show ?thesis
    by (auto simp add: global_step_message_is_not_epoch_alert)
next
  case neither
  then show ?thesis
    by auto
qed

lemma global_step_alert_iff:
  "list_ex is_global_step_alert (snd (on_train_epoch_end self tr amb))
     = (\<not> (at_epoch self \<noteq> None \<and> the (at_epoch self) \<le> current_epoch tr)
        \<and> at_global_step self \<noteq> None \<and> the (at_global_step self) \<le> global_step tr)"
proof (cases self tr amb rule: on_train_epoch_end_cases)
  case (epoch n)
  then show ?thesis
    by (simp add: epoch_message_is_not_global_step_alert)
next
  case (global_step m)
  then show ?thesis
    by (auto simp add: global_step_message_is_global_step_alert)
next
  case neither
  then show ?thesis
    by auto
qed

lemma on_train_epoch_end_clears_at_epoch:
  "list_ex is_epoch_alert (snd (on_train_epoch_end self tr amb)) \<Longrightarrow>
   at_epoch (fst (on_train_epoch_end self tr amb)) = None"
  by (auto simp add: epoch_alert_iff on_train_epoch_end_epoch)

lemma on_train_epoch_end_clears_at_global_step:
  "list_ex is_global_step_alert (snd (on_train_epoch_end self tr amb)) \<Longrightarrow>
   at_global_step (fst (on_train_epoch_end self tr amb)) = None"
  by (auto simp add: global_step_alert_iff on_train_epoch_end_global_step)

text \<open>No handler ever sets a threshold: an unset threshold stays unset through any history.\<close>

lemma dispatch_keeps_at_epoch_unset:
  "at_epoch self = None \<Longrightarrow> at_epoch (fst (dispatch self ev)) = None"
  by (cases ev)
     (auto simp add: on_train_epoch_end_def on_exception_def teardown_def rank_zero_only_def
        alert_def print_def Let_def)

lemma dispatch_keeps_at_global_step_unset:
  "at_global_step self = None \<Longrightarrow> at_global_step (fst (dispatch self ev)) = None"
  by (cases ev)
     (auto simp add: on_train_epoch_end_def on_exception_def teardown_def rank_zero_only_def
        alert_def print_def Let_def)

lemma run_Cons_instance:
  "fst (run self (ev # evs)) = fst (run (fst (dispatch self ev)) evs)"
  by (simp split: prod.splits)

lemma run_keeps_at_epoch_unset:
  "at_epoch self = None \<Longrightarrow> at_epoch (fst (run self evs)) = None"
proof (induction evs arbitrary: self)
  case Nil
  then show ?case by simp
next
  case (Cons ev evs)
  from Cons.prems have "at_epoch (fst (dispatch self ev)) = None"
    by (rule dispatch_keeps_at_epoch_unset)
  then have "at_epoch (fst (run (fst (dispatch self ev)) evs)) = None"
    by (rule Cons.IH)
  then show ?case
    by (simp only: run_Cons_instance)
qed

lemma run_keeps_at_global_step_unset:
  "at_global_step self = None \<Longrightarrow> at_global_step (fst (run self evs)) = None"
proof (induction evs arbitrary: self)
  case Nil
  then show ?case by simp
next
  case (Cons ev evs)
  from Cons.prems have "at_global_step (fst (dispatch self ev)) = None"
    by (rule dispatch_keeps_at_global_step_unset)
  then have "at_global_step (fst (run (fst (dispatch self ev)) evs)) = None"
    by (rule Cons.IH)
  then show ?case
    by (simp only: run_Cons_instance)
qed

text \<open>
  C3. When both thresholds are set and both are reached, the call sends exactly one alert,
  the one of the epoch threshold; \<^verbatim>\<open>at_epoch\<close> is cleared and
  \<^verbatim>\<open>at_global_step\<close> keeps its value.
\<close>

theorem epoch_threshold_has_priority:
  assumes "at_epoch self = Some n"
      and "at_global_step self = Some m"
      and "n \<le> current_epoch tr"
      and "m \<le> global_step tr"
  shows "on_train_epoch_end self tr amb =
           (self\<lparr>at_epoch := None\<rparr>,
            [Alert (progress_message (epoch_title n) (self\<lparr>at_epoch := None\<rparr>) tr amb)])
         \<and> length (alerts_sent (snd (on_train_epoch_end self tr amb))) = 1
         \<and> list_ex is_epoch_alert (snd (on_train_epoch_end self tr amb))
         \<and> \<not> list_ex is_global_step_alert (snd (on_train_epoch_end self tr amb))
         \<and> at_epoch (fst (on_train_epoch_end self tr amb)) = None
         \<and> at_global_step (fst (on_train_epoch_end self tr amb)) = Some m"
proof -
  have call: "on_train_epoch_end self tr amb =
           (self\<lparr>at_epoch := None\<rparr>,
            [Alert (progress_message (epoch_title n) (self\<lparr>at_epoch := None\<rparr>) tr amb)])"
    using assms(1,3) by (rule on_train_epoch_end_epoch)
  have one: "length (alerts_sent (snd (on_train_epoch_end self tr amb))) = 1"
    by (simp add: call alerts_sent_def)
  have kind: "list_ex is_epoch_alert (snd (on_train_epoch_end self tr amb))"
             "\<not> list_ex is_global_step_alert (snd (on_train_epoch_end self tr amb))"
    by (simp_all add: call epoch_message_is_epoch_alert epoch_message_is_not_global_step_alert)
  have thresholds: "at_epoch (fst (on_train_epoch_end self tr amb)) = None"
                   "at_global_step (fst (on_train_epoch_end self tr amb)) = Some m"
    using assms(2) by (simp_all add: call)
  from call one kind thresholds show ?thesis
    by blast
qed

theorem epoch_threshold_has_priority_witness:
  "on_train_epoch_end ex_armed ex_trainer ex_ambient =
     (ex_armed\<lparr>at_epoch := None\<rparr>,
      [Alert (progress_message (epoch_title 3) (ex_armed\<lparr>at_epoch := None\<rparr>) ex_trainer ex_ambient)])
   \<and> at_global_step (fst (on_train_epoch_end ex_armed ex_trainer ex_ambient)) = Some 100"
proof -
  have a: "at_epoch ex_armed = Some 3" and b: "at_global_step ex_armed = Some 100"
    by (simp_all add: ex_armed_def init_def)
  have c: "3 \<le> current_epoch ex_trainer" and d: "100 \<le> global_step ex_trainer"
    by (simp_all add: ex_trainer_def)
  show ?thesis
    using epoch_threshold_has_priority [OF a b c d, of ex_ambient] by blast
qed

text \<open>
  C8. When each threshold is either unset or not yet reached, the call sends nothing and
  returns with every attribute of the instance as it was.
\<close>

theorem no_threshold_reached_is_noop:
  assumes "at_epoch self = None \<or> current_epoch tr < the (at_epoch self)"
      and "at_global_step self = None \<or> global_step tr < the (at_global_step self)"
  shows "on_train_epoch_end self tr amb = (self, [])"
  using assms by (rule on_train_epoch_end_neither)

theorem no_threshold_reached_is_noop_witness:
  "on_train_epoch_end (init False False False None None ''node07'') ex_trainer ex_ambient
     = (init False False False None None ''node07'', [])
   \<and> on_train_epoch_end ex_far ex_trainer ex_ambient = (ex_far, [])"
proof -
  have unset: "at_epoch (init False False False None None ''node07'') = None"
              "at_global_step (init False False False None None ''node07'') = None"
    by (simp_all add: init_def)
  have far: "current_epoch ex_trainer < the (at_epoch ex_far)"
            "global_step ex_trainer < the (at_global_step ex_far)"
    by (simp_all add: ex_far_def init_def ex_trainer_def)
  show ?thesis
    using no_threshold_reached_is_noop
            [of "init False False False None None ''node07''" ex_trainer ex_ambient]
          no_threshold_reached_is_noop [of ex_far ex_trainer ex_ambient]
          unset far
    by simp
qed

text \<open>
  C4. Each threshold is one-shot. A threshold fires on a call when the call sends that
  threshold's alert, which happens exactly when the branch of that threshold is taken. On
  such a call the threshold is cleared; it is still unset after any later history of calls
  of the handlers, and no later call of \<^verbatim>\<open>on_train_epoch_end\<close>, whatever epoch
  and step it sees, sends that threshold's alert again.
\<close>

theorem thresholds_one_shot:
  assumes "on_train_epoch_end self tr amb = (self1, es1)"
      and "run self1 evs = (self2, es2)"
      and "on_train_epoch_end self2 tr' amb' = (self3, es3)"
  shows "list_ex is_epoch_alert es1
           = (at_epoch self \<noteq> None \<and> the (at_epoch self) \<le> current_epoch tr)
         \<and> (list_ex is_epoch_alert es1 \<longrightarrow>
               at_epoch self1 = None \<and> at_epoch self2 = None \<and> at_epoch self3 = None
               \<and> \<not> list_ex is_epoch_alert es3)
         \<and> list_ex is_global_step_alert es1
             = (\<not> (at_epoch self \<noteq> None \<and> the (at_epoch self) \<le> current_epoch tr)
                \<and> at_global_step self \<noteq> None \<and> the (at_global_step self) \<le> global_step tr)
         \<and> (list_ex is_global_step_alert es1 \<longrightarrow>
               at_global_step self1 = None \<and> at_global_step self2 = None \<and> at_global_step self3 = None
               \<and> \<not> list_ex is_global_step_alert es3)"
proof -
  have first: "self1 = fst (on_train_epoch_end self tr amb)" "es1 = snd (on_train_epoch_end self tr amb)"
    using assms(1) by simp_all
  have later: "self2 = fst (run self1 evs)"
    using assms(2) by simp
  have last: "self3 = fst (on_train_epoch_end self2 tr' amb')" "es3 = snd (on_train_epoch_end self2 tr' amb')"
    using assms(3) by simp_all
  have epoch_fires: "list_ex is_epoch_alert es1
           = (at_epoch self \<noteq> None \<and> the (at_epoch self) \<le> current_epoch tr)"
    unfolding first by (rule epoch_alert_iff)
  have step_fires: "list_ex is_global_step_alert es1
             = (\<not> (at_epoch self \<noteq> None \<and> the (at_epoch self) \<le> current_epoch tr)
                \<and> at_global_step self \<noteq> None \<and> the (at_global_step self) \<le> global_step tr)"
    unfolding first by (rule global_step_alert_iff)
  have epoch_once: "at_epoch self1 = None \<and> at_epoch self2 = None \<and> at_epoch self3 = None
               \<and> \<not> list_ex is_epoch_alert es3" if "list_ex is_epoch_alert es1"
  proof -
    from that have c1: "at_epoch self1 = None"
      unfolding first by (rule on_train_epoch_end_clears_at_epoch)
    then have c2: "at_epoch self2 = None"
      unfolding later by (rule run_keeps_at_epoch_unset)
    then have quiet: "\<not> list_ex is_epoch_alert es3"
      unfolding last by (simp add: epoch_alert_iff)
    from c2 have "at_epoch (fst (dispatch self2 (Train_epoch_end tr' amb'))) = None"
      by (rule dispatch_keeps_at_epoch_unset)
    then have c3: "at_epoch self3 = None"
      unfolding last by simp
    from c1 c2 c3 quiet show ?thesis
      by blast
  qed
  have step_once: "at_global_step self1 = None \<and> at_global_step self2 = None \<and> at_global_step self3 = None
               \<and> \<not> list_ex is_global_step_alert es3" if "list_ex is_global_step_alert es1"
  proof -
    from that have c1: "at_global_step self1 = None"
      unfolding first by (rule on_train_epoch_end_clears_at_global_step)
    then have c2: "at_global_step self2 = None"
      unfolding later by (rule run_keeps_at_global_step_unset)
    then have quiet: "\<not> list_ex is_global_step_alert es3"
      unfolding last by (simp add: global_step_alert_iff)
    from c2 have "at_global_step (fst (dispatch self2 (Train_epoch_end tr' amb'))) = None"
      by (rule dispatch_keeps_at_global_step_unset)
    then have c3: "at_global_step self3 = None"
      unfolding last by simp
    from c1 c2 c3 quiet show ?thesis
      by blast
  qed
  from epoch_fires step_fires epoch_once step_once show ?thesis
    by blast
qed

theorem thresholds_one_shot_witness:
  "list_ex is_epoch_alert (snd (on_train_epoch_end ex_armed ex_trainer ex_ambient))
   \<and> at_epoch (fst (run (fst (on_train_epoch_end ex_armed ex_trainer ex_ambient)) ex_events)) = None
   \<and> \<not> list_ex is_epoch_alert
        (snd (on_train_epoch_end
                (fst (run (fst (on_train_epoch_end ex_armed ex_trainer ex_ambient)) ex_events))
                ex_later_trainer ex_ambient))
   \<and> list_ex is_global_step_alert (snd (on_train_epoch_end ex_step_armed ex_trainer ex_ambient))
   \<and> at_global_step (fst (run (fst (on_train_epoch_end ex_step_armed ex_trainer ex_ambient)) ex_events)) = None
   \<and> \<not> list_ex is_global_step_alert
        (snd (on_train_epoch_end
                (fst (run (fst (on_train_epoch_end ex_step_armed ex_trainer ex_ambient)) ex_events))
                ex_later_trainer ex_ambient))"
proof -
  have e: "at_epoch ex_armed \<noteq> None \<and> the (at_epoch ex_armed) \<le> current_epoch ex_trainer"
    by (simp add: ex_armed_def init_def ex_trainer_def)
  have s: "\<not> (at_epoch ex_step_armed \<noteq> None \<and> the (at_epoch ex_step_armed) \<le> current_epoch ex_trainer)
           \<and> at_global_step ex_step_armed \<noteq> None
           \<and> the (at_global_step ex_step_armed) \<le> global_step ex_trainer"
    by (simp add: ex_step_armed_def init_def ex_trainer_def)
  show ?thesis
    using thresholds_one_shot
            [OF surjective_pairing surjective_pairing surjective_pairing,
             of ex_armed ex_trainer ex_ambient ex_events ex_later_trainer ex_ambient]
          thresholds_one_shot
            [OF surjective_pairing surjective_pairing surjective_pairing,
             of ex_step_armed ex_trainer ex_ambient ex_events ex_later_trainer ex_ambient]
          e s
    by blast
qed

end
